theory Spec2Isabelle
  imports Main
begin

section \<open>Data model of incident-jira-webhook.go\<close>

text \<open>
  Go strings are byte sequences; they are modelled as \<open>string\<close> (a list of bytes).
  Struct types become records that keep the Go field names. Several structs share the
  field names \<open>ID\<close> and \<open>Name\<close>; the definitions below always qualify them with the
  record they belong to.
\<close>

record Config =
  JiraBaseURL :: string
  JiraUsername :: string
  JiraAPIToken :: string
  IncidentAPIToken :: string
  WebhookSecret :: string
  Port :: string
  JiraWorkspaceID :: string
  ImpactedComponentFieldName :: string
  ImpactedComponentJiraFieldID :: string
  ResponsibleComponentFieldName :: string
  ResponsibleComponentJiraFieldID :: string

record FieldMapping =
  IncidentFieldName :: string
  JiraFieldID :: string

record ExternalIssueReference =
  Provider :: string
  IssueName :: string
  IssuePermalink :: string

record CustomField =
  ID :: string
  Name :: string
  Description :: string
  FieldType :: string

record CatalogEntry =
  ID :: string
  Name :: string
  ExternalID :: string

text \<open>\<open>ValueCatalogEntry\<close> is a pointer in Go: \<open>None\<close> is the nil pointer.\<close>

record Value =
  ValueCatalogEntry :: "CatalogEntry option"

record CustomFieldEntry =
  CustomField :: CustomField
  Values :: "Value list"

text \<open>The anonymous struct type shared by both incident sub-objects of \<open>IncidentData\<close>.\<close>

record Incident =
  ID :: string
  Name :: string
  ExternalIssueReference :: ExternalIssueReference
  CustomFieldEntries :: "CustomFieldEntry list"

record IncidentData =
  Incident :: Incident
  PublicIncidentUpdatedV2 :: Incident
  EventType :: string

text \<open>
  The catalog API response. \<open>AttributeValue\<close> flattens the nested Go struct
  \<open>Value.Literal\<close>; \<open>CatalogResponse\<close> keeps the two parts that
  \<open>getCatalogEntryObjectKey\<close> reads: \<open>catalog_entry.attribute_values\<close> (a Go map) and
  \<open>catalog_type.schema.attributes\<close> (a slice).
\<close>

record AttributeValue =
  Literal :: string

record SchemaAttribute =
  ID :: string
  Name :: string

record CatalogResponse =
  AttributeValues :: "string \<rightharpoonup> AttributeValue"
  Attributes :: "SchemaAttribute list"

record JiraComponentValue =
  ID :: string
  ObjectID :: string

text \<open>\<open>IncidentJiraSync\<close>: the receiver of every method. Its HTTP client is the
  upstream world introduced below.\<close>

record IncidentJiraSync =
  config :: Config

text \<open>One constructor for each \<open>fmt.Errorf\<close> of the source.\<close>

datatype error =
    CreateRequestFailed
  | FetchCatalogEntryFailed
  | ApiRequestFailedStatus int
  | DecodeResponseFailed
  | NoObjectKeyFound string
  | EmptyObjectKey
  | CouldNotExtractNumericID string
  | UpdateJiraFieldFailed
  | JiraApiRequestFailedStatus int
  | NoJiraIssueFound

section \<open>Reference extractor: \<open>extractJiraObjectID\<close>\<close>

definition isDigit :: "char \<Rightarrow> bool" where
  "isDigit c = (48 \<le> (of_char c :: nat) \<and> (of_char c :: nat) \<le> 57)"

text \<open>
  \<open>regexp.MustCompile(`-(\d+)$`).FindStringSubmatch\<close>: the leftmost position at which a
  hyphen is followed by one or more ASCII digits up to the end of the text; the result
  is the first capture group (\<open>matches[1]\<close>), \<open>None\<close> when there is no match.
\<close>

fun findStringSubmatch :: "string \<Rightarrow> string option" where
  "findStringSubmatch [] = None"
| "findStringSubmatch (c # cs) =
     (if c = CHR ''-'' \<and> cs \<noteq> [] \<and> list_all isDigit cs then Some cs
      else findStringSubmatch cs)"

definition digitVal :: "char \<Rightarrow> int" where
  "digitVal c = int (of_char c) - 48"

definition decimal :: "string \<Rightarrow> int" where
  "decimal ds = foldl (\<lambda>n c. n * 10 + digitVal c) 0 ds"

text \<open>
  \<open>strconv.Atoi\<close> of the Go library on a 64-bit platform: an optional sign, then one or
  more ASCII digits; \<open>None\<close> on a syntax error or when the value is outside
  \<open>-2^63 .. 2^63 - 1\<close> (range error).
\<close>

definition strconv_Atoi :: "string \<Rightarrow> int option" where
  "strconv_Atoi s =
     (case s of
        [] \<Rightarrow> None
      | c # cs \<Rightarrow>
          (let neg = (c = CHR ''-'');
               ds = (if c = CHR ''-'' \<or> c = CHR ''+'' then cs else s)
           in if ds = [] then None
              else if list_all isDigit ds then
                (if neg then (if 2 ^ 63 < decimal ds then None else Some (- decimal ds))
                 else (if 2 ^ 63 \<le> decimal ds then None else Some (decimal ds)))
              else None))"

definition extractJiraObjectID :: "string \<Rightarrow> error + string" where
  "extractJiraObjectID objectKey =
     (if objectKey = [] then Inl EmptyObjectKey
      else case findStringSubmatch objectKey of
             Some m \<Rightarrow> Inr m
           | None \<Rightarrow>
               (case strconv_Atoi objectKey of
                  Some n \<Rightarrow> Inr objectKey
                | None \<Rightarrow> Inl (CouldNotExtractNumericID objectKey)))"

section \<open>Value formatter: \<open>formatJiraComponentValue\<close>\<close>

definition formatJiraComponentValue ::
  "IncidentJiraSync \<Rightarrow> string \<Rightarrow> string \<Rightarrow> JiraComponentValue" where
  "formatJiraComponentValue s objectID catalogEntryID =
     \<lparr>JiraComponentValue.ID = JiraWorkspaceID (config s) @ '':'' @ objectID,
      ObjectID = objectID\<rparr>"

section \<open>The upstream world\<close>

text \<open>
  The two REST services and the Go library routines that the source calls but does not
  define are parameters of the model. A trace records every call of an HTTP client
  (\<open>client.Do\<close>) with its request, in order. The services may answer differently from one
  request to the next, so each answer is a function of the trace so far and of the
  request.

  \<^item> \<open>request_ok url\<close>: \<open>http.NewRequest\<close> accepts the URL (it fails when the URL does not
    parse, before anything is sent);
  \<^item> \<open>unicode_lower\<close>: what \<open>strings.ToLower\<close> returns on a string with a byte outside
    ASCII (\<open>strings.Map(unicode.ToLower, s)\<close>);
  \<^item> \<open>catalog_api\<close>: the catalog service: a transport error, or a status code with the
    body as \<open>json.Decode\<close> reads it (\<open>None\<close> when decoding fails);
  \<^item> \<open>jira_api\<close>: the issue service: a transport error, or a status code.
\<close>

datatype upstream_call =
    CatalogGet string
  | JiraPut string string "JiraComponentValue list"

datatype catalog_reply =
    CatalogTransportError
  | CatalogReply int "CatalogResponse option"

datatype jira_reply =
    JiraTransportError
  | JiraReply int

record world =
  request_ok :: "string \<Rightarrow> bool"
  unicode_lower :: "string \<Rightarrow> string"
  catalog_api :: "upstream_call list \<Rightarrow> string \<Rightarrow> catalog_reply"
  jira_api :: "upstream_call list \<Rightarrow> string \<Rightarrow> string \<Rightarrow> JiraComponentValue list \<Rightarrow> jira_reply"

subsection \<open>\<open>strings.ToLower\<close>\<close>

definition isASCII :: "char \<Rightarrow> bool" where
  "isASCII c = ((of_char c :: nat) < 128)"

definition asciiLower :: "char \<Rightarrow> char" where
  "asciiLower c =
     (if 65 \<le> (of_char c :: nat) \<and> (of_char c :: nat) \<le> 90
      then char_of ((of_char c :: nat) + 32) else c)"

definition strings_ToLower :: "world \<Rightarrow> string \<Rightarrow> string" where
  "strings_ToLower w s =
     (if list_all isASCII s then map asciiLower s else unicode_lower w s)"

section \<open>Catalog resolver: \<open>getCatalogEntryObjectKey\<close>\<close>

text \<open>The loop that finds the attribute ID for "object key": the ID of the first
  attribute whose lower-cased name is \<open>object key\<close>, the empty string when there is
  none.\<close>

fun findObjectKeyAttrID :: "world \<Rightarrow> SchemaAttribute list \<Rightarrow> string" where
  "findObjectKeyAttrID w [] = []"
| "findObjectKeyAttrID w (attr # rest) =
     (if strings_ToLower w (SchemaAttribute.Name attr) = ''object key''
      then SchemaAttribute.ID attr
      else findObjectKeyAttrID w rest)"

definition getCatalogEntryObjectKey ::
  "IncidentJiraSync \<Rightarrow> world \<Rightarrow> string \<Rightarrow> upstream_call list
     \<Rightarrow> (error + string) \<times> upstream_call list" where
  "getCatalogEntryObjectKey s w catalogEntryID t =
     (let url = ''https://api.incident.io/v2/catalog_entries/'' @ catalogEntryID in
      if \<not> request_ok w url then (Inl CreateRequestFailed, t)
      else
        (case catalog_api w t url of
           CatalogTransportError \<Rightarrow> (Inl FetchCatalogEntryFailed, t @ [CatalogGet url])
         | CatalogReply status body \<Rightarrow>
             if status \<noteq> 200 then (Inl (ApiRequestFailedStatus status), t @ [CatalogGet url])
             else
               (case body of
                  None \<Rightarrow> (Inl DecodeResponseFailed, t @ [CatalogGet url])
                | Some catalogResp \<Rightarrow>
                    (let objectKeyAttrID = findObjectKeyAttrID w (Attributes catalogResp) in
                     if objectKeyAttrID \<noteq> [] then
                       (case AttributeValues catalogResp objectKeyAttrID of
                          Some attrValue \<Rightarrow> (Inr (Literal attrValue), t @ [CatalogGet url])
                        | None \<Rightarrow> (Inl (NoObjectKeyFound catalogEntryID), t @ [CatalogGet url]))
                     else (Inl (NoObjectKeyFound catalogEntryID), t @ [CatalogGet url])))))"

section \<open>Field updater: \<open>updateJiraCustomField\<close>\<close>

text \<open>
  One PUT of the whole value list. \<open>json.Marshal\<close> cannot fail on a payload of string
  structs, so its error return has no branch here. The Go \<open>error\<close> result is
  \<open>error option\<close>, \<open>None\<close> for nil.
\<close>

definition updateJiraCustomField ::
  "IncidentJiraSync \<Rightarrow> world \<Rightarrow> string \<Rightarrow> string \<Rightarrow> JiraComponentValue list
     \<Rightarrow> upstream_call list \<Rightarrow> error option \<times> upstream_call list" where
  "updateJiraCustomField s w jiraIssueKey fieldID values t =
     (let url = JiraBaseURL (config s) @ ''/rest/api/3/issue/'' @ jiraIssueKey in
      if \<not> request_ok w url then (Some CreateRequestFailed, t)
      else
        (case jira_api w t url fieldID values of
           JiraTransportError \<Rightarrow> (Some UpdateJiraFieldFailed, t @ [JiraPut url fieldID values])
         | JiraReply status \<Rightarrow>
             if status \<noteq> 204 \<and> status \<noteq> 200 \<and> status \<noteq> 204
             then (Some (JiraApiRequestFailedStatus status), t @ [JiraPut url fieldID values])
             else (None, t @ [JiraPut url fieldID values])))"

section \<open>\<open>processComponentField\<close>\<close>

text \<open>
  The \<open>for\<close> loop over \<open>customFieldEntry.Values\<close>: \<open>jiraValues\<close> is the accumulator, each
  \<open>continue\<close> is the recursive call with the accumulator unchanged.
\<close>

fun resolveValues ::
  "IncidentJiraSync \<Rightarrow> world \<Rightarrow> Value list \<Rightarrow> JiraComponentValue list \<Rightarrow> upstream_call list
     \<Rightarrow> JiraComponentValue list \<times> upstream_call list" where
  "resolveValues s w [] jiraValues t = (jiraValues, t)"
| "resolveValues s w (v # rest) jiraValues t =
     (case ValueCatalogEntry v of
        None \<Rightarrow> resolveValues s w rest jiraValues t
      | Some catalogEntry \<Rightarrow>
          if CatalogEntry.ID catalogEntry = [] then resolveValues s w rest jiraValues t
          else
            (case getCatalogEntryObjectKey s w (CatalogEntry.ID catalogEntry) t of
               (Inl err, t1) \<Rightarrow> resolveValues s w rest jiraValues t1
             | (Inr objectKey, t1) \<Rightarrow>
                 (case extractJiraObjectID objectKey of
                    Inl err \<Rightarrow> resolveValues s w rest jiraValues t1
                  | Inr objectID \<Rightarrow>
                      resolveValues s w rest
                        (jiraValues @
                           [formatJiraComponentValue s objectID (CatalogEntry.ID catalogEntry)])
                        t1)))"

text \<open>The part of \<open>processComponentField\<close> after the loop: the update of the Jira
  field and its single-value fallback.\<close>

definition updateWithFallback ::
  "IncidentJiraSync \<Rightarrow> world \<Rightarrow> string \<Rightarrow> FieldMapping \<Rightarrow> JiraComponentValue list
     \<Rightarrow> upstream_call list \<Rightarrow> error option \<times> upstream_call list" where
  "updateWithFallback s w jiraIssueKey fieldMapping jiraValues t =
     (if length jiraValues > 0 then
        (case updateJiraCustomField s w jiraIssueKey (JiraFieldID fieldMapping) jiraValues t of
           (err, t1) \<Rightarrow>
             if err \<noteq> None \<and> length jiraValues > 1
             then updateJiraCustomField s w jiraIssueKey (JiraFieldID fieldMapping)
                    [jiraValues ! 0] t1
             else (err, t1))
      else (None, t))"

definition processComponentField ::
  "IncidentJiraSync \<Rightarrow> world \<Rightarrow> CustomFieldEntry \<Rightarrow> string \<Rightarrow> FieldMapping
     \<Rightarrow> upstream_call list \<Rightarrow> error option \<times> upstream_call list" where
  "processComponentField s w customFieldEntry jiraIssueKey fieldMapping t =
     (case resolveValues s w (Values customFieldEntry) [] t of
        (jiraValues, t1) \<Rightarrow> updateWithFallback s w jiraIssueKey fieldMapping jiraValues t1)"

section \<open>Sync orchestrator: \<open>processIncidentUpdate\<close>\<close>

definition getFieldMappings :: "IncidentJiraSync \<Rightarrow> (string \<rightharpoonup> FieldMapping)" where
  "getFieldMappings s =
     [''impacted_components'' \<mapsto>
        \<lparr>IncidentFieldName = ImpactedComponentFieldName (config s),
         JiraFieldID = ImpactedComponentJiraFieldID (config s)\<rparr>,
      ''responsible_components'' \<mapsto>
        \<lparr>IncidentFieldName = ResponsibleComponentFieldName (config s),
         JiraFieldID = ResponsibleComponentJiraFieldID (config s)\<rparr>]"

text \<open>Indexing a Go map: the zero value when the key is absent.\<close>

definition mapIndex :: "(string \<rightharpoonup> FieldMapping) \<Rightarrow> string \<Rightarrow> FieldMapping" where
  "mapIndex m k =
     (case m k of Some v \<Rightarrow> v | None \<Rightarrow> \<lparr>IncidentFieldName = [], JiraFieldID = []\<rparr>)"

text \<open>The body of the loop over \<open>incident.CustomFieldEntries\<close>: the two name checks
  in turn, each returning at once on an error.\<close>

definition processFieldEntry ::
  "IncidentJiraSync \<Rightarrow> world \<Rightarrow> string \<Rightarrow> (string \<rightharpoonup> FieldMapping) \<Rightarrow> CustomFieldEntry
     \<Rightarrow> upstream_call list \<Rightarrow> error option \<times> upstream_call list" where
  "processFieldEntry s w jiraIssueKey fieldMappings fieldEntry t =
     (let fieldName = CustomField.Name (CustomField fieldEntry) in
      case (if fieldName = IncidentFieldName (mapIndex fieldMappings ''impacted_components'')
            then processComponentField s w fieldEntry jiraIssueKey
                   (mapIndex fieldMappings ''impacted_components'') t
            else (None, t)) of
        (Some err, t1) \<Rightarrow> (Some err, t1)
      | (None, t1) \<Rightarrow>
          (if fieldName = IncidentFieldName (mapIndex fieldMappings ''responsible_components'')
           then processComponentField s w fieldEntry jiraIssueKey
                  (mapIndex fieldMappings ''responsible_components'') t1
           else (None, t1)))"

fun processEntries ::
  "IncidentJiraSync \<Rightarrow> world \<Rightarrow> string \<Rightarrow> (string \<rightharpoonup> FieldMapping) \<Rightarrow> CustomFieldEntry list
     \<Rightarrow> upstream_call list \<Rightarrow> error option \<times> upstream_call list" where
  "processEntries s w jiraIssueKey fieldMappings [] t = (None, t)"
| "processEntries s w jiraIssueKey fieldMappings (fieldEntry # rest) t =
     (case processFieldEntry s w jiraIssueKey fieldMappings fieldEntry t of
        (Some err, t1) \<Rightarrow> (Some err, t1)
      | (None, t1) \<Rightarrow> processEntries s w jiraIssueKey fieldMappings rest t1)"

definition selectIncident :: "IncidentData \<Rightarrow> Incident" where
  "selectIncident incidentData =
     (if EventType incidentData = ''public_incident.incident_updated_v2''
      then PublicIncidentUpdatedV2 incidentData
      else Incident incidentData)"

definition processIncidentUpdate ::
  "IncidentJiraSync \<Rightarrow> world \<Rightarrow> IncidentData \<Rightarrow> upstream_call list
     \<Rightarrow> error option \<times> upstream_call list" where
  "processIncidentUpdate s w incidentData t =
     (let incident = selectIncident incidentData;
          jiraIssueKey = IssueName (ExternalIssueReference incident)
      in if jiraIssueKey = [] then (Some NoJiraIssueFound, t)
         else processEntries s w jiraIssueKey (getFieldMappings s)
                (CustomFieldEntries incident) t)"

section \<open>HTTP handler: \<open>webhookHandler\<close>\<close>

text \<open>
  The inbound request as the handler sees it: its method, and its body as
  \<open>io.ReadAll\<close> and \<open>json.Unmarshal\<close> deliver it. A response is a status code with
  either the plain text of \<open>http.Error\<close> or the JSON object \<open>{"status": ...}\<close>.
\<close>

datatype request_body =
    BodyReadError
  | InvalidJSON
  | Payload IncidentData

record request =
  Method :: string
  Body :: request_body

datatype response_body =
    PlainText string
  | JsonStatus string

datatype http_response = Response int response_body

definition webhookHandler ::
  "IncidentJiraSync \<Rightarrow> world \<Rightarrow> request \<Rightarrow> upstream_call list
     \<Rightarrow> http_response \<times> upstream_call list" where
  "webhookHandler s w r t =
     (if Method r \<noteq> ''POST'' then (Response 405 (PlainText ''Method not allowed''), t)
      else
        (case Body r of
           BodyReadError \<Rightarrow> (Response 400 (PlainText ''Failed to read body''), t)
         | InvalidJSON \<Rightarrow> (Response 400 (PlainText ''Invalid JSON payload''), t)
         | Payload payload \<Rightarrow>
             if EventType payload \<noteq> ''incident.custom_field_updated''
                \<and> EventType payload \<noteq> ''public_incident.incident_updated_v2''
             then (Response 200 (JsonStatus ''ignored''), t)
             else
               (case processIncidentUpdate s w payload t of
                  (Some err, t1) \<Rightarrow> (Response 500 (PlainText ''Processing failed''), t1)
                | (None, t1) \<Rightarrow> (Response 200 (JsonStatus ''success''), t1))))"

section \<open>Definitions used to state the properties\<close>

subsection \<open>The extraction policy in the specification's words\<close>

text \<open>The maximal run of digits at the end of a string, and whether that run is
  non-empty and directly preceded by a hyphen.\<close>

definition trailingDigits :: "string \<Rightarrow> string" where
  "trailingDigits s = rev (takeWhile isDigit (rev s))"

definition endsInHyphenDigits :: "string \<Rightarrow> bool" where
  "endsInHyphenDigits s =
     (case dropWhile isDigit (rev s) of
        [] \<Rightarrow> False
      | c # p \<Rightarrow> c = CHR ''-'' \<and> trailingDigits s \<noteq> [])"

text \<open>"The entire string is itself numeric", read plainly: one or more digits.\<close>

definition allDigits :: "string \<Rightarrow> bool" where
  "allDigits s = (s \<noteq> [] \<and> list_all isDigit s)"

text \<open>The policy as the specification words it; \<open>None\<close> is Invalid.\<close>

definition extract_spec :: "string \<Rightarrow> string option" where
  "extract_spec s =
     (if s = [] then None
      else if endsInHyphenDigits s then Some (trailingDigits s)
      else if allDigits s then Some s
      else None)"

text \<open>The same policy with the numeric test of the code: \<open>strconv.Atoi\<close> accepts the
  string.\<close>

definition extract_atoi :: "string \<Rightarrow> string option" where
  "extract_atoi s =
     (if s = [] then None
      else if endsInHyphenDigits s then Some (trailingDigits s)
      else if strconv_Atoi s \<noteq> None then Some s
      else None)"

subsection \<open>Upstream calls and their URLs\<close>

fun isCatalogGet :: "upstream_call \<Rightarrow> bool" where
  "isCatalogGet (CatalogGet url) = True"
| "isCatalogGet (JiraPut url fieldID values) = False"

fun isJiraPut :: "upstream_call \<Rightarrow> bool" where
  "isJiraPut (CatalogGet url) = False"
| "isJiraPut (JiraPut url fieldID values) = True"

definition catalogURL :: "string \<Rightarrow> string" where
  "catalogURL catalogEntryID = ''https://api.incident.io/v2/catalog_entries/'' @ catalogEntryID"

definition issueURL :: "IncidentJiraSync \<Rightarrow> string \<Rightarrow> string" where
  "issueURL s jiraIssueKey = JiraBaseURL (config s) @ ''/rest/api/3/issue/'' @ jiraIssueKey"

subsection \<open>A concrete configuration\<close>

definition exampleConfig :: Config where
  "exampleConfig =
     \<lparr>JiraBaseURL = ''https://jira.test'',
      JiraUsername = ''bot'',
      JiraAPIToken = ''jt'',
      IncidentAPIToken = ''it'',
      WebhookSecret = [],
      Port = ''5000'',
      JiraWorkspaceID = ''ws1'',
      ImpactedComponentFieldName = ''Impacted component'',
      ImpactedComponentJiraFieldID = ''customfield_10234'',
      ResponsibleComponentFieldName = ''Responsible components'',
      ResponsibleComponentJiraFieldID = ''customfield_10235''\<rparr>"

definition exampleSync :: IncidentJiraSync where
  "exampleSync = \<lparr>config = exampleConfig\<rparr>"

subsection \<open>The attribute search in the specification's words\<close>




subsection \<open>A concrete world\<close>

definition exampleCatalogResponse :: "string \<Rightarrow> CatalogResponse" where
  "exampleCatalogResponse objectKey =
     \<lparr>AttributeValues = [''attr1'' \<mapsto> \<lparr>Literal = objectKey\<rparr>],
      Attributes =
        [\<lparr>SchemaAttribute.ID = ''attr0'', Name = ''Owner''\<rparr>,
         \<lparr>SchemaAttribute.ID = ''attr1'', Name = ''Object Key''\<rparr>]\<rparr>"

definition emptyIdCatalogResponse :: CatalogResponse where
  "emptyIdCatalogResponse =
     \<lparr>AttributeValues = [[] \<mapsto> \<lparr>Literal = ''PIN-3''\<rparr>],
      Attributes = [\<lparr>SchemaAttribute.ID = [], Name = ''Object Key''\<rparr>]\<rparr>"

definition exampleCatalogApi :: "upstream_call list \<Rightarrow> string \<Rightarrow> catalog_reply" where
  "exampleCatalogApi t url =
     (if url = catalogURL ''c3'' then CatalogReply 200 (Some (exampleCatalogResponse ''PIN-3''))
      else if url = catalogURL ''c4'' then CatalogReply 200 (Some (exampleCatalogResponse ''PIN-4''))
      else if url = catalogURL ''cx'' then CatalogReply 200 (Some (exampleCatalogResponse ''NOHYPHEN''))
      else if url = catalogURL ''c0'' then CatalogReply 200 (Some emptyIdCatalogResponse)
      else CatalogReply 404 None)"

definition rejectMultiple ::
  "upstream_call list \<Rightarrow> string \<Rightarrow> string \<Rightarrow> JiraComponentValue list \<Rightarrow> jira_reply" where
  "rejectMultiple t url fieldID values =
     (if length values > 1 then JiraReply 400 else JiraReply 204)"

definition rejectField ::
  "string \<Rightarrow> upstream_call list \<Rightarrow> string \<Rightarrow> string \<Rightarrow> JiraComponentValue list \<Rightarrow> jira_reply" where
  "rejectField f t url fieldID values =
     (if fieldID = f then JiraReply 400 else JiraReply 204)"

definition exampleWorld ::
  "(upstream_call list \<Rightarrow> string \<Rightarrow> string \<Rightarrow> JiraComponentValue list \<Rightarrow> jira_reply) \<Rightarrow> world" where
  "exampleWorld jira =
     \<lparr>request_ok = (\<lambda>url. True),
      unicode_lower = (\<lambda>s. s),
      catalog_api = exampleCatalogApi,
      jira_api = jira\<rparr>"

definition catalogValue :: "string \<Rightarrow> Value" where
  "catalogValue cid =
     \<lparr>ValueCatalogEntry = Some \<lparr>CatalogEntry.ID = cid, Name = ''component'', ExternalID = []\<rparr>\<rparr>"

definition exampleEntry :: "string \<Rightarrow> Value list \<Rightarrow> CustomFieldEntry" where
  "exampleEntry fieldName vs =
     \<lparr>CustomField =
        \<lparr>CustomField.ID = ''cf'', Name = fieldName, Description = [], FieldType = ''multi_select''\<rparr>,
      Values = vs\<rparr>"

definition exampleIncident :: "string \<Rightarrow> CustomFieldEntry list \<Rightarrow> Incident" where
  "exampleIncident issue entries =
     \<lparr>Incident.ID = ''inc1'', Name = ''outage'',
      ExternalIssueReference =
        \<lparr>Provider = ''jira'', IssueName = issue, IssuePermalink = []\<rparr>,
      CustomFieldEntries = entries\<rparr>"

definition plainValue :: Value where
  "plainValue = \<lparr>ValueCatalogEntry = None\<rparr>"

definition examplePayload :: "string \<Rightarrow> Incident \<Rightarrow> Incident \<Rightarrow> IncidentData" where
  "examplePayload kind dflt v2 =
     \<lparr>Incident = dflt, PublicIncidentUpdatedV2 = v2, EventType = kind\<rparr>"

definition jv3 :: JiraComponentValue where
  "jv3 = \<lparr>JiraComponentValue.ID = ''ws1:3'', ObjectID = ''3''\<rparr>"

definition jv4 :: JiraComponentValue where
  "jv4 = \<lparr>JiraComponentValue.ID = ''ws1:4'', ObjectID = ''4''\<rparr>"

definition impactedMapping :: FieldMapping where
  "impactedMapping =
     \<lparr>IncidentFieldName = ''Impacted component'', JiraFieldID = ''customfield_10234''\<rparr>"

subsection \<open>Provenance of a formatted value\<close>

text \<open>Where a formatted value can come from: a value of the list whose catalog
  resolution and numeric extraction both succeed.\<close>

definition resolvedFrom ::
  "IncidentJiraSync \<Rightarrow> world \<Rightarrow> Value list \<Rightarrow> JiraComponentValue \<Rightarrow> bool" where
  "resolvedFrom s w vs jv =
     (\<exists>v ce t t1 objectKey objectID.
        v \<in> set vs \<and> ValueCatalogEntry v = Some ce \<and> CatalogEntry.ID ce \<noteq> []
        \<and> getCatalogEntryObjectKey s w (CatalogEntry.ID ce) t = (Inr objectKey, t1)
        \<and> extractJiraObjectID objectKey = Inr objectID
        \<and> jv = formatJiraComponentValue s objectID (CatalogEntry.ID ce))"

section \<open>Properties of the reference extractor\<close>

lemma hyphen_not_digit: "\<not> isDigit (CHR ''-'')"
  by (simp add: isDigit_def)

lemma findStringSubmatch_Some_iff:
  "findStringSubmatch s = Some d \<longleftrightarrow>
     (\<exists>p. s = p @ CHR ''-'' # d) \<and> d \<noteq> [] \<and> list_all isDigit d"
proof (induction s)
  case Nil
  then show ?case by simp
next
  case (Cons c cs)
  show ?case
  proof (cases "c = CHR ''-'' \<and> cs \<noteq> [] \<and> list_all isDigit cs")
    case True
    have "d = cs" if "c # cs = p @ CHR ''-'' # d" for p
    proof (cases p)
      case Nil
      with that show ?thesis by simp
    next
      case (Cons a p')
      with that have "cs = p' @ CHR ''-'' # d" by simp
      with True have "isDigit (CHR ''-'')" by (simp add: list_all_iff)
      with hyphen_not_digit show ?thesis by simp
    qed
    moreover have "c # cs = [] @ CHR ''-'' # cs" using True by simp
    ultimately show ?thesis using True by auto
  next
    case False
    then have eq: "findStringSubmatch (c # cs) = findStringSubmatch cs" by auto
    have "(\<exists>p. c # cs = p @ CHR ''-'' # d) \<and> d \<noteq> [] \<and> list_all isDigit d \<longleftrightarrow>
          (\<exists>p. cs = p @ CHR ''-'' # d) \<and> d \<noteq> [] \<and> list_all isDigit d"
    proof
      assume h: "(\<exists>p. c # cs = p @ CHR ''-'' # d) \<and> d \<noteq> [] \<and> list_all isDigit d"
      then obtain p where p: "c # cs = p @ CHR ''-'' # d" by blast
      show "(\<exists>p. cs = p @ CHR ''-'' # d) \<and> d \<noteq> [] \<and> list_all isDigit d"
      proof (cases p)
        case Nil
        with p h False show ?thesis by simp
      next
        case (Cons a p')
        with p h show ?thesis by auto
      qed
    next
      assume h: "(\<exists>p. cs = p @ CHR ''-'' # d) \<and> d \<noteq> [] \<and> list_all isDigit d"
      then obtain p where "cs = p @ CHR ''-'' # d" by blast
      then have "c # cs = (c # p) @ CHR ''-'' # d" by simp
      with h show "(\<exists>p. c # cs = p @ CHR ''-'' # d) \<and> d \<noteq> [] \<and> list_all isDigit d"
        by blast
    qed
    with eq Cons.IH show ?thesis by simp
  qed
qed

lemma endsInHyphenDigits_iff:
  "endsInHyphenDigits s \<and> trailingDigits s = d \<longleftrightarrow>
     (\<exists>p. s = p @ CHR ''-'' # d) \<and> d \<noteq> [] \<and> list_all isDigit d"
proof
  assume h: "endsInHyphenDigits s \<and> trailingDigits s = d"
  then obtain c q where q: "dropWhile isDigit (rev s) = c # q"
    and c: "c = CHR ''-''" and ne: "d \<noteq> []"
    by (auto simp: endsInHyphenDigits_def split: list.splits)
  have "rev s = takeWhile isDigit (rev s) @ dropWhile isDigit (rev s)" by simp
  moreover have "takeWhile isDigit (rev s) = rev d"
    using h by (auto simp: trailingDigits_def)
  ultimately have "rev s = rev d @ CHR ''-'' # q" using q c by simp
  then have "rev (rev s) = rev (rev d @ CHR ''-'' # q)" by simp
  then have "s = rev q @ CHR ''-'' # d" by simp
  moreover have "list_all isDigit d"
    using h by (auto simp: trailingDigits_def list_all_iff dest: set_takeWhileD)
  ultimately show "(\<exists>p. s = p @ CHR ''-'' # d) \<and> d \<noteq> [] \<and> list_all isDigit d"
    using ne by blast
next
  assume h: "(\<exists>p. s = p @ CHR ''-'' # d) \<and> d \<noteq> [] \<and> list_all isDigit d"
  then obtain p where p: "s = p @ CHR ''-'' # d" by blast
  have r: "rev s = rev d @ CHR ''-'' # rev p" using p by simp
  have all: "\<forall>x\<in>set (rev d). isDigit x" using h by (simp add: list_all_iff)
  have "takeWhile isDigit (rev d @ CHR ''-'' # rev p) =
          rev d @ takeWhile isDigit (CHR ''-'' # rev p)"
    by (rule takeWhile_append2) (use all in blast)
  then have t: "takeWhile isDigit (rev s) = rev d"
    using hyphen_not_digit by (simp add: r)
  have "dropWhile isDigit (rev d @ CHR ''-'' # rev p) = dropWhile isDigit (CHR ''-'' # rev p)"
    by (rule dropWhile_append2) (use all in blast)
  then have dr: "dropWhile isDigit (rev s) = CHR ''-'' # rev p"
    using hyphen_not_digit by (simp add: r)
  show "endsInHyphenDigits s \<and> trailingDigits s = d"
    using h t dr by (simp add: endsInHyphenDigits_def trailingDigits_def)
qed

lemma findStringSubmatch_spec:
  "findStringSubmatch s = (if endsInHyphenDigits s then Some (trailingDigits s) else None)"
proof (cases "findStringSubmatch s")
  case None
  have "\<not> endsInHyphenDigits s"
  proof
    assume "endsInHyphenDigits s"
    then have "endsInHyphenDigits s \<and> trailingDigits s = trailingDigits s" by simp
    then have "findStringSubmatch s = Some (trailingDigits s)"
      unfolding endsInHyphenDigits_iff findStringSubmatch_Some_iff .
    with None show False by simp
  qed
  with None show ?thesis by simp
next
  case (Some d)
  then have "endsInHyphenDigits s \<and> trailingDigits s = d"
    unfolding endsInHyphenDigits_iff findStringSubmatch_Some_iff .
  with Some show ?thesis by simp
qed

lemma extract_refines_atoi:
  "extractJiraObjectID s =
     (case extract_atoi s of
        Some r \<Rightarrow> Inr r
      | None \<Rightarrow> Inl (if s = [] then EmptyObjectKey else CouldNotExtractNumericID s))"
  by (auto simp: extractJiraObjectID_def extract_atoi_def findStringSubmatch_spec
      split: option.splits)

lemma extract_atoi_agrees_with_spec:
  assumes plus: "hd s \<noteq> CHR ''+''" and range: "allDigits s \<longrightarrow> decimal s < 2 ^ 63"
  shows "extract_atoi s = extract_spec s"
proof (cases "s = [] \<or> endsInHyphenDigits s")
  case True
  then show ?thesis by (auto simp: extract_atoi_def extract_spec_def)
next
  case False
  then obtain c cs where s: "s = c # cs" by (cases s) auto
  have "strconv_Atoi s \<noteq> None \<longleftrightarrow> allDigits s"
  proof (cases "c = CHR ''-''")
    case True
    have "\<not> (cs \<noteq> [] \<and> list_all isDigit cs)"
    proof
      assume a: "cs \<noteq> [] \<and> list_all isDigit cs"
      have "(\<exists>p. s = p @ CHR ''-'' # cs) \<and> cs \<noteq> [] \<and> list_all isDigit cs"
        using a s True by auto
      then have "endsInHyphenDigits s \<and> trailingDigits s = cs"
        unfolding endsInHyphenDigits_iff .
      with False show False by simp
    qed
    then have "strconv_Atoi s = None"
      using s True by (auto simp: strconv_Atoi_def Let_def)
    moreover have "\<not> allDigits s"
      using s True hyphen_not_digit by (simp add: allDigits_def)
    ultimately show ?thesis by simp
  next
    case False
    with plus s have "c \<noteq> CHR ''+''" by simp
    with False s range show ?thesis
      by (auto simp: strconv_Atoi_def Let_def allDigits_def)
  qed
  with False show ?thesis by (simp add: extract_atoi_def extract_spec_def)
qed

lemma extractJiraObjectID_agrees_with_spec:
  assumes "hd s \<noteq> CHR ''+''" and "allDigits s \<longrightarrow> decimal s < 2 ^ 63"
  shows "extractJiraObjectID s =
           (case extract_spec s of
              Some r \<Rightarrow> Inr r
            | None \<Rightarrow> Inl (if s = [] then EmptyObjectKey else CouldNotExtractNumericID s))"
  using extract_refines_atoi [of s] extract_atoi_agrees_with_spec [OF assms] by simp

text \<open>
  C2. The policy: a string that ends in a hyphen followed by one or more digits gives the
  trailing digit run; otherwise a string that is itself numeric is returned unchanged;
  otherwise, and for the empty string, the result is Invalid. The code departs from it
  at \<open>9223372036854775808\<close>: the string is a run of digits, the policy returns it
  unchanged, and the code returns Invalid, because its test for "just a number" is
  \<open>strconv.Atoi\<close>, which overflows. The hyphen path of the same function returns the
  same digit run when it follows \<open>PIN-\<close>.
\<close>

theorem extractJiraObjectID_oversized_digits:
  "extract_spec ''9223372036854775808'' = Some ''9223372036854775808''
   \<and> extractJiraObjectID ''9223372036854775808''
       = Inl (CouldNotExtractNumericID ''9223372036854775808'')
   \<and> extractJiraObjectID ''PIN-9223372036854775808'' = Inr ''9223372036854775808''"
  by (simp add: extract_spec_def endsInHyphenDigits_def trailingDigits_def allDigits_def
      extractJiraObjectID_def strconv_Atoi_def isDigit_def decimal_def digitVal_def)

text \<open>The examples of the specification.\<close>

lemma extractJiraObjectID_examples:
  "extractJiraObjectID ''PIN-3'' = Inr ''3''"
  "extractJiraObjectID ''SUP-2024-10'' = Inr ''10''"
  "extractJiraObjectID ''42'' = Inr ''42''"
  "extractJiraObjectID [] = Inl EmptyObjectKey"
  "extractJiraObjectID ''NOHYPHEN'' = Inl (CouldNotExtractNumericID ''NOHYPHEN'')"
  by (simp_all add: extractJiraObjectID_def strconv_Atoi_def isDigit_def decimal_def
      digitVal_def)

section \<open>Properties of the value formatter\<close>

text \<open>
  C8. For every workspace identifier \<open>ws\<close> and extracted numeric id \<open>n\<close>, the formatted
  value has the primary reference \<open>ws @ ":" @ n\<close> and the secondary reference \<open>n\<close>
  verbatim, whatever \<open>ws\<close> is; the catalog entry id plays no part.
\<close>

theorem formatJiraComponentValue_composition:
  "JiraWorkspaceID (config s) = ws \<Longrightarrow>
     formatJiraComponentValue s n cid = \<lparr>JiraComponentValue.ID = ws @ '':'' @ n, ObjectID = n\<rparr>"
  by (simp add: formatJiraComponentValue_def)

theorem formatJiraComponentValue_composition_witness:
  "JiraWorkspaceID (config exampleSync) = ''ws1''
   \<and> formatJiraComponentValue exampleSync ''3'' ''01HCATALOG''
       = \<lparr>JiraComponentValue.ID = ''ws1:3'', ObjectID = ''3''\<rparr>"
proof -
  have h: "JiraWorkspaceID (config exampleSync) = ''ws1''"
    by (simp add: exampleSync_def exampleConfig_def)
  from formatJiraComponentValue_composition [OF h, of "''3''" "''01HCATALOG''"] h
  show ?thesis by simp
qed

section \<open>Evaluation of the concrete world\<close>

lemmas lower_eval = strings_ToLower_def isASCII_def asciiLower_def char_of_def bit_0

lemmas example_defs =
  exampleWorld_def exampleCatalogApi_def catalogURL_def issueURL_def
  exampleCatalogResponse_def emptyIdCatalogResponse_def exampleSync_def exampleConfig_def
  rejectMultiple_def rejectField_def catalogValue_def exampleEntry_def exampleIncident_def

section \<open>Properties of the catalog resolver\<close>

lemma getCatalogEntryObjectKey_trace:
  "snd (getCatalogEntryObjectKey s w cid t) =
     (if request_ok w (catalogURL cid) then t @ [CatalogGet (catalogURL cid)] else t)"
  by (simp add: getCatalogEntryObjectKey_def catalogURL_def Let_def
      split: catalog_reply.splits option.splits)

lemma updateJiraCustomField_trace:
  "snd (updateJiraCustomField s w key f vs t) =
     (if request_ok w (issueURL s key) then t @ [JiraPut (issueURL s key) f vs] else t)"
  by (simp add: updateJiraCustomField_def issueURL_def Let_def split: jira_reply.splits)








section \<open>Properties of the field update and its fallback\<close>

lemma updateWithFallback_result:
  assumes "jiraValues \<noteq> []"
    and "updateJiraCustomField s w key (JiraFieldID fm) jiraValues t = (r1, t1)"
  shows "updateWithFallback s w key fm jiraValues t =
           (if r1 \<noteq> None \<and> 1 < length jiraValues
            then updateJiraCustomField s w key (JiraFieldID fm) [hd jiraValues] t1
            else (r1, t1))"
  using assms by (cases jiraValues) (simp_all add: updateWithFallback_def)

lemma updateWithFallback_trace:
  assumes "jiraValues \<noteq> []"
    and "updateJiraCustomField s w key (JiraFieldID fm) jiraValues t = (r1, t1)"
  shows "snd (updateWithFallback s w key fm jiraValues t) =
           t @ (if request_ok w (issueURL s key)
                then JiraPut (issueURL s key) (JiraFieldID fm) jiraValues #
                       (if r1 \<noteq> None \<and> 1 < length jiraValues
                        then [JiraPut (issueURL s key) (JiraFieldID fm) [hd jiraValues]]
                        else [])
                else [])"
proof -
  have t1: "t1 = (if request_ok w (issueURL s key)
                  then t @ [JiraPut (issueURL s key) (JiraFieldID fm) jiraValues] else t)"
    using assms(2) updateJiraCustomField_trace [of s w key "JiraFieldID fm" jiraValues t]
    by simp
  show ?thesis
    unfolding updateWithFallback_result [OF assms]
    by (simp add: updateJiraCustomField_trace t1)
qed

text \<open>
  C1. For every non-empty list of formatted values submitted for one mapped field: if
  the first write of the whole list fails and the list has more than one value, the
  update is run once more with only the first value, and the result of that retry is
  the final result; if the list has exactly one value and the write fails, that failure
  is final and nothing more is sent; a first write that succeeds is final too. The
  requests sent are the whole list and then, only in the retry case, the singleton of the
  first value: at most two writes per field.
\<close>

theorem updateWithFallback_policy:
  assumes "jiraValues \<noteq> []"
    and "updateJiraCustomField s w key (JiraFieldID fm) jiraValues t = (r1, t1)"
  shows "(r1 \<noteq> None \<and> 1 < length jiraValues \<longrightarrow>
            updateWithFallback s w key fm jiraValues t
              = updateJiraCustomField s w key (JiraFieldID fm) [hd jiraValues] t1)
       \<and> (r1 \<noteq> None \<and> length jiraValues = 1 \<longrightarrow>
            updateWithFallback s w key fm jiraValues t = (r1, t1))
       \<and> (r1 = None \<longrightarrow> updateWithFallback s w key fm jiraValues t = (None, t1))
       \<and> snd (updateWithFallback s w key fm jiraValues t) =
           t @ (if request_ok w (issueURL s key)
                then JiraPut (issueURL s key) (JiraFieldID fm) jiraValues #
                       (if r1 \<noteq> None \<and> 1 < length jiraValues
                        then [JiraPut (issueURL s key) (JiraFieldID fm) [hd jiraValues]]
                        else [])
                else [])
       \<and> length (filter isJiraPut (snd (updateWithFallback s w key fm jiraValues t)))
           \<le> length (filter isJiraPut t) + 2"
proof -
  note res = updateWithFallback_result [OF assms]
  note tr = updateWithFallback_trace [OF assms]
  have "length (filter isJiraPut (snd (updateWithFallback s w key fm jiraValues t)))
           \<le> length (filter isJiraPut t) + 2"
    unfolding tr by simp
  with res tr show ?thesis by simp
qed

theorem updateWithFallback_policy_witness:
  "[jv3, jv4] \<noteq> []
   \<and> updateJiraCustomField exampleSync (exampleWorld rejectMultiple) ''PIN-7''
        (JiraFieldID impactedMapping) [jv3, jv4] []
       = (Some (JiraApiRequestFailedStatus 400),
          [JiraPut (issueURL exampleSync ''PIN-7'') ''customfield_10234'' [jv3, jv4]])
   \<and> 1 < length [jv3, jv4]
   \<and> updateWithFallback exampleSync (exampleWorld rejectMultiple) ''PIN-7'' impactedMapping
        [jv3, jv4] []
       = (None,
          [JiraPut (issueURL exampleSync ''PIN-7'') ''customfield_10234'' [jv3, jv4],
           JiraPut (issueURL exampleSync ''PIN-7'') ''customfield_10234'' [jv3]])"
proof -
  let ?w = "exampleWorld rejectMultiple"
  let ?t1 = "[JiraPut (issueURL exampleSync ''PIN-7'') ''customfield_10234'' [jv3, jv4]]"
  have a: "[jv3, jv4] \<noteq> []" by simp
  have b: "updateJiraCustomField exampleSync ?w ''PIN-7'' (JiraFieldID impactedMapping)
             [jv3, jv4] [] = (Some (JiraApiRequestFailedStatus 400), ?t1)"
    by (simp add: updateJiraCustomField_def exampleWorld_def rejectMultiple_def issueURL_def
        impactedMapping_def)
  have c: "updateJiraCustomField exampleSync ?w ''PIN-7'' (JiraFieldID impactedMapping)
             [jv3] ?t1
           = (None, ?t1 @ [JiraPut (issueURL exampleSync ''PIN-7'') ''customfield_10234'' [jv3]])"
    by (simp add: updateJiraCustomField_def exampleWorld_def rejectMultiple_def issueURL_def
        impactedMapping_def)
  from updateWithFallback_policy [OF a b] c
  have "updateWithFallback exampleSync ?w ''PIN-7'' impactedMapping [jv3, jv4] []
          = (None, ?t1 @ [JiraPut (issueURL exampleSync ''PIN-7'') ''customfield_10234'' [jv3]])"
    by simp
  with a b show ?thesis by simp
qed

text \<open>The negative case of the specification: one value, one failed write, no retry.\<close>

lemma updateWithFallback_single_failure:
  "updateWithFallback exampleSync (exampleWorld (rejectField ''customfield_10234'')) ''PIN-7''
     impactedMapping [jv3] []
   = (Some (JiraApiRequestFailedStatus 400),
      [JiraPut (issueURL exampleSync ''PIN-7'') ''customfield_10234'' [jv3]])"
  by (simp add: updateWithFallback_def updateJiraCustomField_def exampleWorld_def
      rejectField_def issueURL_def impactedMapping_def)

section \<open>Properties of the value loop\<close>

lemma resolveValues_append:
  "resolveValues s w (xs @ ys) acc t =
     (case resolveValues s w xs acc t of (b, t1) \<Rightarrow> resolveValues s w ys b t1)"
  by (induction xs arbitrary: acc t) (auto split: option.splits prod.splits sum.splits)

lemma resolveValues_skip:
  assumes "ValueCatalogEntry v = None
           \<or> (\<exists>ce. ValueCatalogEntry v = Some ce \<and> CatalogEntry.ID ce = [])"
  shows "resolveValues s w (v # rest) acc t = resolveValues s w rest acc t"
  using assms by auto

lemma resolveValues_failure:
  assumes "ValueCatalogEntry v = Some ce" and "CatalogEntry.ID ce \<noteq> []"
    and "getCatalogEntryObjectKey s w (CatalogEntry.ID ce) t = (r, t1)"
    and "case r of Inl e \<Rightarrow> True | Inr objectKey \<Rightarrow> isl (extractJiraObjectID objectKey)"
  shows "resolveValues s w (v # rest) acc t = resolveValues s w rest acc t1"
  using assms by (cases r) (auto split: sum.splits)

lemma resolvedFrom_Cons: "resolvedFrom s w vs jv \<Longrightarrow> resolvedFrom s w (v # vs) jv"
  unfolding resolvedFrom_def by (metis list.set_intros(2))

lemma resolveValues_provenance:
  "\<exists>new. fst (resolveValues s w vs acc t) = acc @ new
        \<and> list_all (resolvedFrom s w vs) new"
proof (induction vs arbitrary: acc t)
  case Nil
  then show ?case by simp
next
  case (Cons v vs)
  have lift: "\<exists>new. fst (resolveValues s w vs acc' t') = acc' @ new
               \<and> list_all (resolvedFrom s w (v # vs)) new" for acc' t'
  proof -
    from Cons.IH [of acc' t'] obtain new where
      "fst (resolveValues s w vs acc' t') = acc' @ new" "list_all (resolvedFrom s w vs) new"
      by blast
    then show ?thesis
      using resolvedFrom_Cons [of s w vs _ v] by (auto simp: list_all_iff)
  qed
  show ?case
  proof (cases "ValueCatalogEntry v")
    case None
    then show ?thesis using lift [of acc t] by simp
  next
    case (Some ce)
    show ?thesis
    proof (cases "CatalogEntry.ID ce = []")
      case True
      then show ?thesis using Some lift [of acc t] by simp
    next
      case False
      obtain r t1 where g: "getCatalogEntryObjectKey s w (CatalogEntry.ID ce) t = (r, t1)"
        by (cases "getCatalogEntryObjectKey s w (CatalogEntry.ID ce) t")
      show ?thesis
      proof (cases "case r of Inl e \<Rightarrow> True | Inr objectKey \<Rightarrow> isl (extractJiraObjectID objectKey)")
        case True
        from resolveValues_failure [OF Some False g True]
        show ?thesis using lift [of acc t1] by simp
      next
        case f: False
        then obtain objectKey objectID where r: "r = Inr objectKey"
          and e: "extractJiraObjectID objectKey = Inr objectID"
          by (cases r; cases "extractJiraObjectID (projr r)") auto
        let ?jv = "formatJiraComponentValue s objectID (CatalogEntry.ID ce)"
        have step: "resolveValues s w (v # vs) acc t = resolveValues s w vs (acc @ [?jv]) t1"
          using Some False g r e by simp
        from lift [of "acc @ [?jv]" t1] obtain new where
          n: "fst (resolveValues s w vs (acc @ [?jv]) t1) = (acc @ [?jv]) @ new"
          and a: "list_all (resolvedFrom s w (v # vs)) new" by blast
        have "resolvedFrom s w (v # vs) ?jv"
          unfolding resolvedFrom_def using Some False g r e by force
        with a have "list_all (resolvedFrom s w (v # vs)) (?jv # new)" by simp
        moreover have "fst (resolveValues s w (v # vs) acc t) = acc @ (?jv # new)"
          using step n by simp
        ultimately show ?thesis by blast
      qed
    qed
  qed
qed

lemma resolveValues_trace:
  "\<exists>gets. snd (resolveValues s w vs acc t) = t @ gets \<and> list_all isCatalogGet gets"
proof (induction vs arbitrary: acc t)
  case Nil
  then show ?case by simp
next
  case (Cons v vs)
  show ?case
  proof (cases "ValueCatalogEntry v")
    case None
    then show ?thesis using Cons.IH[of acc t] by simp
  next
    case (Some ce)
    show ?thesis
    proof (cases "CatalogEntry.ID ce = []")
      case True
      then show ?thesis using Some Cons.IH[of acc t] by simp
    next
      case False
      obtain r t1 where g: "getCatalogEntryObjectKey s w (CatalogEntry.ID ce) t = (r, t1)"
        by (cases "getCatalogEntryObjectKey s w (CatalogEntry.ID ce) t")
      have "t1 = snd (getCatalogEntryObjectKey s w (CatalogEntry.ID ce) t)" using g by simp
      then obtain g1 where t1: "t1 = t @ g1" and g1: "list_all isCatalogGet g1"
        unfolding getCatalogEntryObjectKey_trace
        by (cases "request_ok w (catalogURL (CatalogEntry.ID ce))") auto
      obtain acc' where step: "resolveValues s w (v # vs) acc t = resolveValues s w vs acc' t1"
        using Some False g by (cases r; cases "extractJiraObjectID (projr r)") (auto split: sum.splits)
      from Cons.IH[of acc' t1] obtain g2 where
        "snd (resolveValues s w vs acc' t1) = t1 @ g2" and "list_all isCatalogGet g2" by blast
      then have "snd (resolveValues s w (v # vs) acc t) = t @ (g1 @ g2)
                 \<and> list_all isCatalogGet (g1 @ g2)"
        using step t1 g1 by simp
      then show ?thesis by blast
    qed
  qed
qed

text \<open>
  C4. Every formatted value that the loop adds to the batch comes from a value of the
  list whose catalog resolution and numeric extraction both succeeded; and when the
  resolution or the extraction of one value fails, the loop goes on with the values
  after it exactly as it would have without the failing value, from the batch built so
  far.
\<close>

theorem resolveValues_drops_failures_only:
  "(\<exists>new. fst (resolveValues s w vs acc t) = acc @ new \<and> list_all (resolvedFrom s w vs) new)
   \<and> (resolveValues s w pre acc t = (batch, t1)
        \<and> ValueCatalogEntry v = Some ce \<and> CatalogEntry.ID ce \<noteq> []
        \<and> getCatalogEntryObjectKey s w (CatalogEntry.ID ce) t1 = (r, t2)
        \<and> (case r of Inl e \<Rightarrow> True | Inr objectKey \<Rightarrow> isl (extractJiraObjectID objectKey))
      \<longrightarrow> resolveValues s w (pre @ v # post) acc t = resolveValues s w post batch t2)"
proof -
  have "resolveValues s w (pre @ v # post) acc t = resolveValues s w post batch t2"
    if "resolveValues s w pre acc t = (batch, t1)"
      and "ValueCatalogEntry v = Some ce" and "CatalogEntry.ID ce \<noteq> []"
      and "getCatalogEntryObjectKey s w (CatalogEntry.ID ce) t1 = (r, t2)"
      and "case r of Inl e \<Rightarrow> True | Inr objectKey \<Rightarrow> isl (extractJiraObjectID objectKey)"
    using that resolveValues_failure [of v ce s w t1 r t2 post batch]
    by (simp add: resolveValues_append)
  with resolveValues_provenance [of s w vs acc t] show ?thesis by blast
qed

lemma get_c3:
  "getCatalogEntryObjectKey exampleSync (exampleWorld jira) ''c3'' t
     = (Inr ''PIN-3'', t @ [CatalogGet (catalogURL ''c3'')])"
  by (simp add: getCatalogEntryObjectKey_def example_defs lower_eval)

lemma get_c4:
  "getCatalogEntryObjectKey exampleSync (exampleWorld jira) ''c4'' t
     = (Inr ''PIN-4'', t @ [CatalogGet (catalogURL ''c4'')])"
  by (simp add: getCatalogEntryObjectKey_def example_defs lower_eval)

lemma get_cx:
  "getCatalogEntryObjectKey exampleSync (exampleWorld jira) ''cx'' t
     = (Inr ''NOHYPHEN'', t @ [CatalogGet (catalogURL ''cx'')])"
  by (simp add: getCatalogEntryObjectKey_def example_defs lower_eval)

lemma get_c9:
  "getCatalogEntryObjectKey exampleSync (exampleWorld jira) ''c9'' t
     = (Inl (ApiRequestFailedStatus 404), t @ [CatalogGet (catalogURL ''c9'')])"
  by (simp add: getCatalogEntryObjectKey_def example_defs)

lemma format_example:
  "formatJiraComponentValue exampleSync ''3'' cid = jv3"
  "formatJiraComponentValue exampleSync ''4'' cid = jv4"
  by (simp_all add: formatJiraComponentValue_def exampleSync_def exampleConfig_def jv3_def jv4_def)

lemmas example_eval =
  get_c3 get_c4 get_cx get_c9 format_example extractJiraObjectID_examples catalogValue_def
  plainValue_def

lemma extract_PIN4: "extractJiraObjectID ''PIN-4'' = Inr ''4''"
  by (simp add: extractJiraObjectID_def isDigit_def)

theorem resolveValues_drops_failures_only_witness:
  "resolveValues exampleSync (exampleWorld rejectMultiple) [catalogValue ''c3''] [] []
     = ([jv3], [CatalogGet (catalogURL ''c3'')])
   \<and> getCatalogEntryObjectKey exampleSync (exampleWorld rejectMultiple) ''c9''
        [CatalogGet (catalogURL ''c3'')]
     = (Inl (ApiRequestFailedStatus 404),
        [CatalogGet (catalogURL ''c3''), CatalogGet (catalogURL ''c9'')])
   \<and> resolveValues exampleSync (exampleWorld rejectMultiple)
        ([catalogValue ''c3''] @ catalogValue ''c9'' # [catalogValue ''cx'', catalogValue ''c4''])
        [] []
     = ([jv3, jv4],
        [CatalogGet (catalogURL ''c3''), CatalogGet (catalogURL ''c9''),
         CatalogGet (catalogURL ''cx''), CatalogGet (catalogURL ''c4'')])"
proof -
  let ?w = "exampleWorld rejectMultiple"
  let ?ce = "\<lparr>CatalogEntry.ID = ''c9'', Name = ''component'', ExternalID = []\<rparr>"
  have a: "resolveValues exampleSync ?w [catalogValue ''c3''] [] []
             = ([jv3], [CatalogGet (catalogURL ''c3'')])"
    by (simp add: example_eval)
  have b: "ValueCatalogEntry (catalogValue ''c9'') = Some ?ce" "CatalogEntry.ID ?ce \<noteq> []"
    by (simp_all add: catalogValue_def)
  have c: "getCatalogEntryObjectKey exampleSync ?w (CatalogEntry.ID ?ce)
             [CatalogGet (catalogURL ''c3'')]
           = (Inl (ApiRequestFailedStatus 404),
              [CatalogGet (catalogURL ''c3''), CatalogGet (catalogURL ''c9'')])"
    by (simp add: get_c9)
  have d: "resolveValues exampleSync ?w [catalogValue ''cx'', catalogValue ''c4''] [jv3]
             [CatalogGet (catalogURL ''c3''), CatalogGet (catalogURL ''c9'')]
           = ([jv3, jv4],
              [CatalogGet (catalogURL ''c3''), CatalogGet (catalogURL ''c9''),
               CatalogGet (catalogURL ''cx''), CatalogGet (catalogURL ''c4'')])"
    by (simp add: example_eval extract_PIN4)
  from resolveValues_drops_failures_only
    [where s = exampleSync and w = ?w and pre = "[catalogValue ''c3'']" and acc = "[]"
       and t = "[]" and batch = "[jv3]" and ?t1.0 = "[CatalogGet (catalogURL ''c3'')]"
       and v = "catalogValue ''c9''" and ce = ?ce and r = "Inl (ApiRequestFailedStatus 404)"
       and ?t2.0 = "[CatalogGet (catalogURL ''c3''), CatalogGet (catalogURL ''c9'')]"
       and post = "[catalogValue ''cx'', catalogValue ''c4'']"]
  have "resolveValues exampleSync ?w
          ([catalogValue ''c3''] @ catalogValue ''c9'' # [catalogValue ''cx'', catalogValue ''c4''])
          [] []
        = resolveValues exampleSync ?w [catalogValue ''cx'', catalogValue ''c4''] [jv3]
            [CatalogGet (catalogURL ''c3''), CatalogGet (catalogURL ''c9'')]"
    using a b c by simp
  with a c d show ?thesis by simp
qed

text \<open>
  C10. A value with no catalog-entry reference, or whose catalog entry has the empty id,
  is skipped without any upstream call: alone it leaves batch and trace unchanged, and
  removing it from a value list changes neither the batch, the trace nor the result of
  processing the field.
\<close>

theorem resolveValues_skips_without_lookup:
  assumes "ValueCatalogEntry v = None
           \<or> (\<exists>ce. ValueCatalogEntry v = Some ce \<and> CatalogEntry.ID ce = [])"
  shows "resolveValues s w [v] acc t = (acc, t)
       \<and> resolveValues s w (pre @ v # post) acc t = resolveValues s w (pre @ post) acc t
       \<and> processComponentField s w (e\<lparr>Values := pre @ v # post\<rparr>) key fm t
           = processComponentField s w (e\<lparr>Values := pre @ post\<rparr>) key fm t"
proof -
  have one: "resolveValues s w (v # rest) acc' t' = resolveValues s w rest acc' t'"
    for rest acc' t'
    using assms by (rule resolveValues_skip)
  have a: "resolveValues s w [v] acc t = (acc, t)" using one [of "[]" acc t] by simp
  have b: "resolveValues s w (pre @ v # post) acc' t = resolveValues s w (pre @ post) acc' t"
    for acc'
    by (simp add: resolveValues_append one del: resolveValues.simps)
  from a b [of acc] b [of "[]"] show ?thesis
    by (simp add: processComponentField_def)
qed

theorem resolveValues_skips_without_lookup_witness:
  "ValueCatalogEntry plainValue = None
   \<and> resolveValues exampleSync (exampleWorld rejectMultiple) [plainValue] [jv3] [] = ([jv3], [])
   \<and> resolveValues exampleSync (exampleWorld rejectMultiple)
        ([catalogValue ''c3''] @ plainValue # [catalogValue ''c4'']) [] []
     = ([jv3, jv4], [CatalogGet (catalogURL ''c3''), CatalogGet (catalogURL ''c4'')])"
proof -
  let ?w = "exampleWorld rejectMultiple"
  have a: "ValueCatalogEntry plainValue = None" by (simp add: plainValue_def)
  then have h: "ValueCatalogEntry plainValue = None
           \<or> (\<exists>ce. ValueCatalogEntry plainValue = Some ce \<and> CatalogEntry.ID ce = [])"
    by (rule disjI1)
  have r: "resolveValues exampleSync ?w ([catalogValue ''c3''] @ [catalogValue ''c4'']) [] []
     = ([jv3, jv4], [CatalogGet (catalogURL ''c3''), CatalogGet (catalogURL ''c4'')])"
    by (simp add: example_eval extract_PIN4)
  note th = resolveValues_skips_without_lookup [OF h]
  have 1: "resolveValues exampleSync ?w [plainValue] [jv3] [] = ([jv3], [])"
    by (rule th [THEN conjunct1])
  have 2: "resolveValues exampleSync ?w
             ([catalogValue ''c3''] @ plainValue # [catalogValue ''c4'']) [] []
           = resolveValues exampleSync ?w ([catalogValue ''c3''] @ [catalogValue ''c4'']) [] []"
    by (rule th [THEN conjunct2, THEN conjunct1])
  from a 1 2 r show ?thesis by (simp only:)
qed

section \<open>Properties of the orchestrator and the handler\<close>

lemma processComponentField_empty:
  assumes "fst (resolveValues s w (Values e) [] t) = []"
  shows "processComponentField s w e key fm t = (None, snd (resolveValues s w (Values e) [] t))"
  using assms
  by (cases "resolveValues s w (Values e) [] t")
     (simp add: processComponentField_def updateWithFallback_def)

lemma processEntries_append:
  "processEntries s w key fms (xs @ ys) t =
     (case processEntries s w key fms xs t of
        (Some err, t1) \<Rightarrow> (Some err, t1)
      | (None, t1) \<Rightarrow> processEntries s w key fms ys t1)"
  by (induction xs arbitrary: t) (auto split: option.splits prod.splits)

text \<open>
  C9. When the resolved value list of a mapped field is empty, processing that field
  returns success, sends no issue update (only the catalog lookups of the loop are in
  the trace), and the loop over the event's entries goes on with the entries after it.
\<close>

theorem processComponentField_empty_batch:
  assumes "fst (resolveValues s w (Values e) [] t) = []"
  shows "processComponentField s w e key fm t = (None, snd (resolveValues s w (Values e) [] t))
       \<and> (\<exists>gets. snd (processComponentField s w e key fm t) = t @ gets
                  \<and> list_all isCatalogGet gets)
       \<and> filter isJiraPut (snd (processComponentField s w e key fm t)) = filter isJiraPut t
       \<and> ((CustomField.Name (CustomField e)
              = IncidentFieldName (mapIndex fms ''impacted_components''))
            \<noteq> (CustomField.Name (CustomField e)
              = IncidentFieldName (mapIndex fms ''responsible_components''))
          \<longrightarrow> processEntries s w key fms (e # rest) t
              = processEntries s w key fms rest (snd (resolveValues s w (Values e) [] t)))"
proof -
  note pc = processComponentField_empty [OF assms]
  obtain gets where g: "snd (resolveValues s w (Values e) [] t) = t @ gets"
    and cg: "list_all isCatalogGet gets"
    using resolveValues_trace [of s w "Values e" "[]" t] by blast
  have nj: "filter isJiraPut gets = []"
    using cg by (induction gets) (auto elim: isJiraPut.elims)
  have a: "\<exists>gets. snd (processComponentField s w e key fm t) = t @ gets
                  \<and> list_all isCatalogGet gets"
    using g cg by (auto simp: pc)
  have b: "filter isJiraPut (snd (processComponentField s w e key fm t)) = filter isJiraPut t"
    using g nj by (simp add: pc)
  have c: "processEntries s w key fms (e # rest) t
              = processEntries s w key fms rest (snd (resolveValues s w (Values e) [] t))"
    if "(CustomField.Name (CustomField e)
              = IncidentFieldName (mapIndex fms ''impacted_components''))
            \<noteq> (CustomField.Name (CustomField e)
              = IncidentFieldName (mapIndex fms ''responsible_components''))"
    using that by (auto simp: processFieldEntry_def processComponentField_empty [OF assms])
  from pc a b c show ?thesis by blast
qed

theorem processComponentField_empty_batch_witness:
  "fst (resolveValues exampleSync (exampleWorld rejectMultiple)
          (Values (exampleEntry ''Impacted component''
                     [catalogValue ''c9'', plainValue, catalogValue ''cx''])) [] []) = []
   \<and> processComponentField exampleSync (exampleWorld rejectMultiple)
        (exampleEntry ''Impacted component'' [catalogValue ''c9'', plainValue, catalogValue ''cx''])
        ''PIN-7'' impactedMapping []
     = (None, [CatalogGet (catalogURL ''c9''), CatalogGet (catalogURL ''cx'')])"
proof -
  let ?w = "exampleWorld rejectMultiple"
  let ?e = "exampleEntry ''Impacted component''
              [catalogValue ''c9'', plainValue, catalogValue ''cx'']"
  have r: "resolveValues exampleSync ?w (Values ?e) [] []
             = ([], [CatalogGet (catalogURL ''c9''), CatalogGet (catalogURL ''cx'')])"
    by (simp add: example_eval exampleEntry_def)
  then have a: "fst (resolveValues exampleSync ?w (Values ?e) [] []) = []" by simp
  from processComponentField_empty_batch [OF a, of "''PIN-7''" impactedMapping] r a
  show ?thesis by simp
qed

lemma put_ok:
  "fieldID \<noteq> f \<Longrightarrow>
   updateJiraCustomField exampleSync (exampleWorld (rejectField f)) key fieldID vs t
     = (None, t @ [JiraPut (issueURL exampleSync key) fieldID vs])"
  by (simp add: updateJiraCustomField_def exampleWorld_def rejectField_def issueURL_def)

lemma put_rejected:
  "updateJiraCustomField exampleSync (exampleWorld (rejectField f)) key f vs t
     = (Some (JiraApiRequestFailedStatus 400), t @ [JiraPut (issueURL exampleSync key) f vs])"
  by (simp add: updateJiraCustomField_def exampleWorld_def rejectField_def issueURL_def)

lemma example_mappings:
  "mapIndex (getFieldMappings exampleSync) ''impacted_components''
     = \<lparr>IncidentFieldName = ''Impacted component'', JiraFieldID = ''customfield_10234''\<rparr>"
  "mapIndex (getFieldMappings exampleSync) ''responsible_components''
     = \<lparr>IncidentFieldName = ''Responsible components'', JiraFieldID = ''customfield_10235''\<rparr>"
  by (simp_all add: mapIndex_def getFieldMappings_def exampleSync_def exampleConfig_def)

lemma field_impacted:
  "processFieldEntry exampleSync w key (getFieldMappings exampleSync)
     (exampleEntry ''Impacted component'' vs) t
   = processComponentField exampleSync w (exampleEntry ''Impacted component'' vs) key
       \<lparr>IncidentFieldName = ''Impacted component'', JiraFieldID = ''customfield_10234''\<rparr> t"
  by (simp add: processFieldEntry_def example_mappings exampleEntry_def Let_def
      split: prod.splits option.splits)

lemma field_responsible:
  "processFieldEntry exampleSync w key (getFieldMappings exampleSync)
     (exampleEntry ''Responsible components'' vs) t
   = processComponentField exampleSync w (exampleEntry ''Responsible components'' vs) key
       \<lparr>IncidentFieldName = ''Responsible components'', JiraFieldID = ''customfield_10235''\<rparr> t"
  by (simp add: processFieldEntry_def example_mappings exampleEntry_def Let_def)

lemma component_c3:
  "fieldID \<noteq> f \<Longrightarrow>
   processComponentField exampleSync (exampleWorld (rejectField f))
     (exampleEntry name [catalogValue ''c3'']) key
     \<lparr>IncidentFieldName = name', JiraFieldID = fieldID\<rparr> t
   = (None, t @ [CatalogGet (catalogURL ''c3''),
                 JiraPut (issueURL exampleSync key) fieldID [jv3]])"
  by (simp add: processComponentField_def updateWithFallback_def exampleEntry_def
      example_eval put_ok)

lemma component_c4_rejected:
  "processComponentField exampleSync (exampleWorld (rejectField f))
     (exampleEntry name [catalogValue ''c4'']) key
     \<lparr>IncidentFieldName = name', JiraFieldID = f\<rparr> t
   = (Some (JiraApiRequestFailedStatus 400),
      t @ [CatalogGet (catalogURL ''c4''), JiraPut (issueURL exampleSync key) f [jv4]])"
  by (simp add: processComponentField_def updateWithFallback_def exampleEntry_def
      example_eval extract_PIN4 put_rejected)

lemma processIncidentUpdate_entries:
  assumes "IssueName (ExternalIssueReference (selectIncident d)) \<noteq> []"
  shows "processIncidentUpdate s w d t =
           processEntries s w (IssueName (ExternalIssueReference (selectIncident d)))
             (getFieldMappings s) (CustomFieldEntries (selectIncident d)) t"
  using assms by (simp add: processIncidentUpdate_def Let_def)

lemma getFieldMappings_impacted:
  "mapIndex (getFieldMappings s) ''impacted_components''
     = \<lparr>IncidentFieldName = ImpactedComponentFieldName (config s),
        JiraFieldID = ImpactedComponentJiraFieldID (config s)\<rparr>"
  by (simp add: mapIndex_def getFieldMappings_def)

lemma getFieldMappings_responsible:
  "mapIndex (getFieldMappings s) ''responsible_components''
     = \<lparr>IncidentFieldName = ResponsibleComponentFieldName (config s),
        JiraFieldID = ResponsibleComponentJiraFieldID (config s)\<rparr>"
  by (simp add: mapIndex_def getFieldMappings_def)

lemma processFieldEntry_impacted_fails:
  assumes "CustomField.Name (CustomField e) = ImpactedComponentFieldName (config s)"
    and "processComponentField s w e key
           \<lparr>IncidentFieldName = ImpactedComponentFieldName (config s),
            JiraFieldID = ImpactedComponentJiraFieldID (config s)\<rparr> t1 = (Some err, t2)"
  shows "processFieldEntry s w key (getFieldMappings s) e t1 = (Some err, t2)"
  using assms
  by (simp add: processFieldEntry_def Let_def getFieldMappings_impacted)

lemma processFieldEntry_responsible_fails:
  assumes "CustomField.Name (CustomField e) = ResponsibleComponentFieldName (config s)"
    and "(if CustomField.Name (CustomField e) = ImpactedComponentFieldName (config s)
          then processComponentField s w e key
                 \<lparr>IncidentFieldName = ImpactedComponentFieldName (config s),
                  JiraFieldID = ImpactedComponentJiraFieldID (config s)\<rparr> t1
          else (None, t1)) = (None, t1')"
    and "processComponentField s w e key
           \<lparr>IncidentFieldName = ResponsibleComponentFieldName (config s),
            JiraFieldID = ResponsibleComponentJiraFieldID (config s)\<rparr> t1' = (Some err, t2)"
  shows "processFieldEntry s w key (getFieldMappings s) e t1 = (Some err, t2)"
  using assms
  by (simp add: processFieldEntry_def Let_def getFieldMappings_impacted
      getFieldMappings_responsible split: if_splits)

text \<open>
  C3. The custom-field entries of an event are processed in the order of the list (a
  list \<open>xs @ ys\<close> is processed as \<open>xs\<close>, then \<open>ys\<close> from the trace \<open>xs\<close> left). When the
  entries before an entry succeeded and the field update of that entry fails (the
  update of the impacted-components field, or the update of the responsible-components
  field once the impacted one did not fail), the event's result is that failure with the
  trace as the failed update left it: no later entry is examined, resolved or written.
\<close>

theorem processIncidentUpdate_stops_at_first_failure:
  "processEntries s w key fms (xs @ ys) t =
     (case processEntries s w key fms xs t of
        (Some err, t1) \<Rightarrow> (Some err, t1)
      | (None, t1) \<Rightarrow> processEntries s w key fms ys t1)
   \<and> (IssueName (ExternalIssueReference (selectIncident d)) \<noteq> []
      \<and> CustomFieldEntries (selectIncident d) = pre @ e # post
      \<and> processEntries s w (IssueName (ExternalIssueReference (selectIncident d)))
           (getFieldMappings s) pre t = (None, t1)
      \<and> processFieldEntry s w (IssueName (ExternalIssueReference (selectIncident d)))
           (getFieldMappings s) e t1 = (Some err, t2)
      \<longrightarrow> processIncidentUpdate s w d t = (Some err, t2))
   \<and> (IssueName (ExternalIssueReference (selectIncident d)) \<noteq> []
      \<and> CustomFieldEntries (selectIncident d) = pre @ e # post
      \<and> processEntries s w (IssueName (ExternalIssueReference (selectIncident d)))
           (getFieldMappings s) pre t = (None, t1)
      \<and> CustomField.Name (CustomField e) = ImpactedComponentFieldName (config s)
      \<and> processComponentField s w e (IssueName (ExternalIssueReference (selectIncident d)))
           \<lparr>IncidentFieldName = ImpactedComponentFieldName (config s),
            JiraFieldID = ImpactedComponentJiraFieldID (config s)\<rparr> t1 = (Some err, t2)
      \<longrightarrow> processIncidentUpdate s w d t = (Some err, t2))
   \<and> (IssueName (ExternalIssueReference (selectIncident d)) \<noteq> []
      \<and> CustomFieldEntries (selectIncident d) = pre @ e # post
      \<and> processEntries s w (IssueName (ExternalIssueReference (selectIncident d)))
           (getFieldMappings s) pre t = (None, t1)
      \<and> CustomField.Name (CustomField e) = ResponsibleComponentFieldName (config s)
      \<and> (if CustomField.Name (CustomField e) = ImpactedComponentFieldName (config s)
          then processComponentField s w e
                 (IssueName (ExternalIssueReference (selectIncident d)))
                 \<lparr>IncidentFieldName = ImpactedComponentFieldName (config s),
                  JiraFieldID = ImpactedComponentJiraFieldID (config s)\<rparr> t1
          else (None, t1)) = (None, t1')
      \<and> processComponentField s w e (IssueName (ExternalIssueReference (selectIncident d)))
           \<lparr>IncidentFieldName = ResponsibleComponentFieldName (config s),
            JiraFieldID = ResponsibleComponentJiraFieldID (config s)\<rparr> t1' = (Some err, t2)
      \<longrightarrow> processIncidentUpdate s w d t = (Some err, t2))"
proof -
  let ?key = "IssueName (ExternalIssueReference (selectIncident d))"
  have stop: "processIncidentUpdate s w d t = (Some err, t2)"
    if "?key \<noteq> []" and "CustomFieldEntries (selectIncident d) = pre @ e # post"
      and "processEntries s w ?key (getFieldMappings s) pre t = (None, t1)"
      and "processFieldEntry s w ?key (getFieldMappings s) e t1 = (Some err, t2)"
    using that by (simp add: processIncidentUpdate_entries processEntries_append)
  have imp: "processIncidentUpdate s w d t = (Some err, t2)"
    if "?key \<noteq> []" and "CustomFieldEntries (selectIncident d) = pre @ e # post"
      and "processEntries s w ?key (getFieldMappings s) pre t = (None, t1)"
      and "CustomField.Name (CustomField e) = ImpactedComponentFieldName (config s)"
      and "processComponentField s w e ?key
             \<lparr>IncidentFieldName = ImpactedComponentFieldName (config s),
              JiraFieldID = ImpactedComponentJiraFieldID (config s)\<rparr> t1 = (Some err, t2)"
    using that(1-3) processFieldEntry_impacted_fails [OF that(4,5)] by (rule stop)
  have resp: "processIncidentUpdate s w d t = (Some err, t2)"
    if "?key \<noteq> []" and "CustomFieldEntries (selectIncident d) = pre @ e # post"
      and "processEntries s w ?key (getFieldMappings s) pre t = (None, t1)"
      and "CustomField.Name (CustomField e) = ResponsibleComponentFieldName (config s)"
      and "(if CustomField.Name (CustomField e) = ImpactedComponentFieldName (config s)
            then processComponentField s w e ?key
                   \<lparr>IncidentFieldName = ImpactedComponentFieldName (config s),
                    JiraFieldID = ImpactedComponentJiraFieldID (config s)\<rparr> t1
            else (None, t1)) = (None, t1')"
      and "processComponentField s w e ?key
             \<lparr>IncidentFieldName = ResponsibleComponentFieldName (config s),
              JiraFieldID = ResponsibleComponentJiraFieldID (config s)\<rparr> t1' = (Some err, t2)"
    using that(1-3) processFieldEntry_responsible_fails [OF that(4,5,6)] by (rule stop)
  show ?thesis
    using processEntries_append [of s w key fms xs ys t] stop imp resp by blast
qed

lemma component_c4:
  "fieldID \<noteq> f \<Longrightarrow>
   processComponentField exampleSync (exampleWorld (rejectField f))
     (exampleEntry name [catalogValue ''c4'']) key
     \<lparr>IncidentFieldName = name', JiraFieldID = fieldID\<rparr> t
   = (None, t @ [CatalogGet (catalogURL ''c4''),
                 JiraPut (issueURL exampleSync key) fieldID [jv4]])"
  by (simp add: processComponentField_def updateWithFallback_def exampleEntry_def
      example_eval extract_PIN4 put_ok)

lemma example_names:
  "ImpactedComponentFieldName (config exampleSync) = ''Impacted component''"
  "ImpactedComponentJiraFieldID (config exampleSync) = ''customfield_10234''"
  "ResponsibleComponentFieldName (config exampleSync) = ''Responsible components''"
  "ResponsibleComponentJiraFieldID (config exampleSync) = ''customfield_10235''"
  by (simp_all add: exampleSync_def exampleConfig_def)

lemma entry_name: "CustomField.Name (CustomField (exampleEntry name vs)) = name"
  by (simp add: exampleEntry_def)

theorem processIncidentUpdate_stops_at_first_failure_witness:
  "processComponentField exampleSync (exampleWorld (rejectField ''customfield_10235''))
     (exampleEntry ''Responsible components'' [catalogValue ''c4'']) ''PIN-7''
     \<lparr>IncidentFieldName = ''Responsible components'', JiraFieldID = ''customfield_10235''\<rparr>
     [CatalogGet (catalogURL ''c3''),
      JiraPut (issueURL exampleSync ''PIN-7'') ''customfield_10234'' [jv3]]
     = (Some (JiraApiRequestFailedStatus 400),
        [CatalogGet (catalogURL ''c3''),
         JiraPut (issueURL exampleSync ''PIN-7'') ''customfield_10234'' [jv3],
         CatalogGet (catalogURL ''c4''),
         JiraPut (issueURL exampleSync ''PIN-7'') ''customfield_10235'' [jv4]])
   \<and> processIncidentUpdate exampleSync (exampleWorld (rejectField ''customfield_10235''))
       (examplePayload ''incident.custom_field_updated''
          (exampleIncident ''PIN-7''
             ([exampleEntry ''Impacted component'' [catalogValue ''c3'']]
              @ exampleEntry ''Responsible components'' [catalogValue ''c4'']
              # [exampleEntry ''Impacted component'' [catalogValue ''c4'']]))
          (exampleIncident [] []))
       []
     = (Some (JiraApiRequestFailedStatus 400),
        [CatalogGet (catalogURL ''c3''),
         JiraPut (issueURL exampleSync ''PIN-7'') ''customfield_10234'' [jv3],
         CatalogGet (catalogURL ''c4''),
         JiraPut (issueURL exampleSync ''PIN-7'') ''customfield_10235'' [jv4]])
   \<and> processIncidentUpdate exampleSync (exampleWorld (rejectField ''customfield_10234''))
       (examplePayload ''incident.custom_field_updated''
          (exampleIncident ''PIN-7''
             ([] @ exampleEntry ''Impacted component'' [catalogValue ''c4'']
              # [exampleEntry ''Responsible components'' [catalogValue ''c3'']]))
          (exampleIncident [] []))
       []
     = (Some (JiraApiRequestFailedStatus 400),
        [CatalogGet (catalogURL ''c4''),
         JiraPut (issueURL exampleSync ''PIN-7'') ''customfield_10234'' [jv4]])"
proof -
  let ?imp = "\<lparr>IncidentFieldName = ImpactedComponentFieldName (config exampleSync),
                JiraFieldID = ImpactedComponentJiraFieldID (config exampleSync)\<rparr>"
  let ?resp = "\<lparr>IncidentFieldName = ResponsibleComponentFieldName (config exampleSync),
                 JiraFieldID = ResponsibleComponentJiraFieldID (config exampleSync)\<rparr>"
  \<comment> \<open>the update of the responsible field fails, after an impacted field that succeeded\<close>
  let ?w = "exampleWorld (rejectField ''customfield_10235'')"
  let ?pre = "[exampleEntry ''Impacted component'' [catalogValue ''c3'']]"
  let ?e = "exampleEntry ''Responsible components'' [catalogValue ''c4'']"
  let ?post = "[exampleEntry ''Impacted component'' [catalogValue ''c4'']]"
  let ?d = "examplePayload ''incident.custom_field_updated''
              (exampleIncident ''PIN-7'' (?pre @ ?e # ?post)) (exampleIncident [] [])"
  let ?k = "IssueName (ExternalIssueReference (selectIncident ?d))"
  let ?t1 = "[CatalogGet (catalogURL ''c3''),
              JiraPut (issueURL exampleSync ''PIN-7'') ''customfield_10234'' [jv3]]"
  let ?t2 = "[CatalogGet (catalogURL ''c3''),
              JiraPut (issueURL exampleSync ''PIN-7'') ''customfield_10234'' [jv3],
              CatalogGet (catalogURL ''c4''),
              JiraPut (issueURL exampleSync ''PIN-7'') ''customfield_10235'' [jv4]]"
  have key: "?k = ''PIN-7''"
    and ents: "CustomFieldEntries (selectIncident ?d) = ?pre @ ?e # ?post"
    by (simp_all add: selectIncident_def examplePayload_def exampleIncident_def)
  have ne: "?k \<noteq> []" by (simp only: key) simp
  have a: "processEntries exampleSync ?w ?k (getFieldMappings exampleSync) ?pre [] = (None, ?t1)"
    by (simp only: key) (simp add: field_impacted component_c3)
  have n: "CustomField.Name (CustomField ?e) = ResponsibleComponentFieldName (config exampleSync)"
    by (simp add: entry_name example_names)
  have i: "(if CustomField.Name (CustomField ?e) = ImpactedComponentFieldName (config exampleSync)
            then processComponentField exampleSync ?w ?e ?k ?imp ?t1
            else (None, ?t1)) = (None, ?t1)"
    by (simp add: entry_name example_names)
  have u: "processComponentField exampleSync ?w ?e ''PIN-7''
             \<lparr>IncidentFieldName = ''Responsible components'',
              JiraFieldID = ''customfield_10235''\<rparr> ?t1
           = (Some (JiraApiRequestFailedStatus 400), ?t2)"
    by (simp add: component_c4_rejected)
  have u': "processComponentField exampleSync ?w ?e ?k ?resp ?t1
           = (Some (JiraApiRequestFailedStatus 400), ?t2)"
    by (simp only: key example_names u)
  have B: "processIncidentUpdate exampleSync ?w ?d [] = (Some (JiraApiRequestFailedStatus 400), ?t2)"
    by (rule processIncidentUpdate_stops_at_first_failure
          [where xs = "[]" and ys = "[]", THEN conjunct2, THEN conjunct2, THEN conjunct2,
           THEN mp, OF conjI [OF ne conjI [OF ents conjI [OF a conjI [OF n conjI [OF i u']]]]]])
  \<comment> \<open>the update of the impacted field fails at the first entry\<close>
  let ?w2 = "exampleWorld (rejectField ''customfield_10234'')"
  let ?e2 = "exampleEntry ''Impacted component'' [catalogValue ''c4'']"
  let ?post2 = "[exampleEntry ''Responsible components'' [catalogValue ''c3'']]"
  let ?d2 = "examplePayload ''incident.custom_field_updated''
              (exampleIncident ''PIN-7'' ([] @ ?e2 # ?post2)) (exampleIncident [] [])"
  let ?k2 = "IssueName (ExternalIssueReference (selectIncident ?d2))"
  let ?t3 = "[CatalogGet (catalogURL ''c4''),
              JiraPut (issueURL exampleSync ''PIN-7'') ''customfield_10234'' [jv4]]"
  have key2: "?k2 = ''PIN-7''"
    and ents2: "CustomFieldEntries (selectIncident ?d2) = [] @ ?e2 # ?post2"
    by (simp_all add: selectIncident_def examplePayload_def exampleIncident_def)
  have ne2: "?k2 \<noteq> []" by (simp only: key2) simp
  have a2: "processEntries exampleSync ?w2 ?k2 (getFieldMappings exampleSync) [] [] = (None, [])"
    by simp
  have n2: "CustomField.Name (CustomField ?e2) = ImpactedComponentFieldName (config exampleSync)"
    by (simp add: entry_name example_names)
  have u2: "processComponentField exampleSync ?w2 ?e2 ?k2 ?imp []
           = (Some (JiraApiRequestFailedStatus 400), ?t3)"
    by (simp only: key2 example_names) (simp add: component_c4_rejected)
  have A: "processIncidentUpdate exampleSync ?w2 ?d2 [] = (Some (JiraApiRequestFailedStatus 400), ?t3)"
    by (rule processIncidentUpdate_stops_at_first_failure
          [where xs = "[]" and ys = "[]", THEN conjunct2, THEN conjunct2, THEN conjunct1,
           THEN mp, OF conjI [OF ne2 conjI [OF ents2 conjI [OF a2 conjI [OF n2 u2]]]]])
  from u B A show ?thesis by (simp only:)
qed

text \<open>
  C5. For an event of a recognized kind whose selected incident sub-object has an empty
  linked-issue key, processing fails with the no-linked-issue error and the trace
  unchanged (no upstream call), and the handler answers 500 "Processing failed".
\<close>

theorem processIncidentUpdate_no_linked_issue:
  assumes "EventType p = ''incident.custom_field_updated''
           \<or> EventType p = ''public_incident.incident_updated_v2''"
    and "IssueName (ExternalIssueReference (selectIncident p)) = []"
  shows "processIncidentUpdate s w p t = (Some NoJiraIssueFound, t)
       \<and> webhookHandler s w \<lparr>Method = ''POST'', Body = Payload p\<rparr> t
           = (Response 500 (PlainText ''Processing failed''), t)"
  using assms by (auto simp: processIncidentUpdate_def webhookHandler_def)

theorem processIncidentUpdate_no_linked_issue_witness:
  "EventType (examplePayload ''incident.custom_field_updated''
       (exampleIncident [] [exampleEntry ''Impacted component'' [catalogValue ''c3'']])
       (exampleIncident ''PIN-7'' []))
     = ''incident.custom_field_updated''
   \<and> IssueName (ExternalIssueReference (selectIncident
        (examplePayload ''incident.custom_field_updated''
           (exampleIncident [] [exampleEntry ''Impacted component'' [catalogValue ''c3'']])
           (exampleIncident ''PIN-7'' [])))) = []
   \<and> webhookHandler exampleSync (exampleWorld rejectMultiple)
        \<lparr>Method = ''POST'',
         Body = Payload (examplePayload ''incident.custom_field_updated''
           (exampleIncident [] [exampleEntry ''Impacted component'' [catalogValue ''c3'']])
           (exampleIncident ''PIN-7'' []))\<rparr> []
     = (Response 500 (PlainText ''Processing failed''), [])"
proof -
  let ?p = "examplePayload ''incident.custom_field_updated''
       (exampleIncident [] [exampleEntry ''Impacted component'' [catalogValue ''c3'']])
       (exampleIncident ''PIN-7'' [])"
  have k: "EventType ?p = ''incident.custom_field_updated''"
    by (simp add: examplePayload_def)
  then have a: "EventType ?p = ''incident.custom_field_updated''
           \<or> EventType ?p = ''public_incident.incident_updated_v2''" by (rule disjI1)
  have b: "IssueName (ExternalIssueReference (selectIncident ?p)) = []"
    by (simp add: selectIncident_def examplePayload_def exampleIncident_def)
  from processIncidentUpdate_no_linked_issue [OF a b, of exampleSync "exampleWorld rejectMultiple" "[]"]
    k b
  show ?thesis by blast
qed

text \<open>
  C6. For a POST request whose body decodes to an event: any kind other than
  \<open>incident.custom_field_updated\<close> and \<open>public_incident.incident_updated_v2\<close> is answered
  200 with the status \<open>ignored\<close> and no upstream call; the two recognized kinds are
  processed, the answer following the result of the processing. For the v2 kind the
  processing takes the issue key and the custom-field entries of the variant sub-object,
  for the other recognized kind those of the default sub-object; the sub-object not
  selected has no influence.
\<close>

theorem webhookHandler_event_kinds:
  "(EventType p \<noteq> ''incident.custom_field_updated''
      \<and> EventType p \<noteq> ''public_incident.incident_updated_v2''
    \<longrightarrow> webhookHandler s w \<lparr>Method = ''POST'', Body = Payload p\<rparr> t
          = (Response 200 (JsonStatus ''ignored''), t))
   \<and> (EventType p = ''incident.custom_field_updated''
        \<or> EventType p = ''public_incident.incident_updated_v2''
    \<longrightarrow> webhookHandler s w \<lparr>Method = ''POST'', Body = Payload p\<rparr> t
          = (case processIncidentUpdate s w p t of
               (Some err, t1) \<Rightarrow> (Response 500 (PlainText ''Processing failed''), t1)
             | (None, t1) \<Rightarrow> (Response 200 (JsonStatus ''success''), t1)))
   \<and> (EventType p = ''public_incident.incident_updated_v2''
    \<longrightarrow> selectIncident p = PublicIncidentUpdatedV2 p
        \<and> processIncidentUpdate s w p t
            = processIncidentUpdate s w (p\<lparr>Incident := other\<rparr>) t)
   \<and> (EventType p = ''incident.custom_field_updated''
    \<longrightarrow> selectIncident p = Incident p
        \<and> processIncidentUpdate s w p t
            = processIncidentUpdate s w (p\<lparr>PublicIncidentUpdatedV2 := other\<rparr>) t)
   \<and> (EventType p = ''public_incident.incident_updated_v2''
    \<longrightarrow> processIncidentUpdate s w p t
          = (if IssueName (ExternalIssueReference (PublicIncidentUpdatedV2 p)) = []
             then (Some NoJiraIssueFound, t)
             else processEntries s w
                    (IssueName (ExternalIssueReference (PublicIncidentUpdatedV2 p)))
                    (getFieldMappings s) (CustomFieldEntries (PublicIncidentUpdatedV2 p)) t))
   \<and> (EventType p = ''incident.custom_field_updated''
    \<longrightarrow> processIncidentUpdate s w p t
          = (if IssueName (ExternalIssueReference (Incident p)) = []
             then (Some NoJiraIssueFound, t)
             else processEntries s w (IssueName (ExternalIssueReference (Incident p)))
                    (getFieldMappings s) (CustomFieldEntries (Incident p)) t))"
  by (auto simp: webhookHandler_def selectIncident_def processIncidentUpdate_def Let_def)

theorem webhookHandler_event_kinds_witness:
  "webhookHandler exampleSync (exampleWorld (rejectField []))
     \<lparr>Method = ''POST'',
      Body = Payload (examplePayload ''incident.created''
               (exampleIncident ''PIN-7''
                  [exampleEntry ''Impacted component'' [catalogValue ''c3'']])
               (exampleIncident ''PIN-8''
                  [exampleEntry ''Impacted component'' [catalogValue ''c4'']]))\<rparr> []
     = (Response 200 (JsonStatus ''ignored''), [])
   \<and> webhookHandler exampleSync (exampleWorld (rejectField []))
     \<lparr>Method = ''POST'',
      Body = Payload (examplePayload ''public_incident.incident_updated_v2''
               (exampleIncident ''PIN-7''
                  [exampleEntry ''Impacted component'' [catalogValue ''c3'']])
               (exampleIncident ''PIN-8''
                  [exampleEntry ''Impacted component'' [catalogValue ''c4'']]))\<rparr> []
     = (Response 200 (JsonStatus ''success''),
        [CatalogGet (catalogURL ''c4''),
         JiraPut (issueURL exampleSync ''PIN-8'') ''customfield_10234'' [jv4]])
   \<and> webhookHandler exampleSync (exampleWorld (rejectField []))
     \<lparr>Method = ''POST'',
      Body = Payload (examplePayload ''incident.custom_field_updated''
               (exampleIncident ''PIN-7''
                  [exampleEntry ''Impacted component'' [catalogValue ''c3'']])
               (exampleIncident ''PIN-8''
                  [exampleEntry ''Impacted component'' [catalogValue ''c4'']]))\<rparr> []
     = (Response 200 (JsonStatus ''success''),
        [CatalogGet (catalogURL ''c3''),
         JiraPut (issueURL exampleSync ''PIN-7'') ''customfield_10234'' [jv3]])"
proof -
  let ?i = "exampleIncident ''PIN-7'' [exampleEntry ''Impacted component'' [catalogValue ''c3'']]"
  let ?v = "exampleIncident ''PIN-8'' [exampleEntry ''Impacted component'' [catalogValue ''c4'']]"
  let ?w = "exampleWorld (rejectField [])"
  let ?p0 = "examplePayload ''incident.created'' ?i ?v"
  let ?p2 = "examplePayload ''public_incident.incident_updated_v2'' ?i ?v"
  let ?p1 = "examplePayload ''incident.custom_field_updated'' ?i ?v"
  let ?t2 = "[CatalogGet (catalogURL ''c4''),
              JiraPut (issueURL exampleSync ''PIN-8'') ''customfield_10234'' [jv4]]"
  let ?t1 = "[CatalogGet (catalogURL ''c3''),
              JiraPut (issueURL exampleSync ''PIN-7'') ''customfield_10234'' [jv3]]"
  note th = webhookHandler_event_kinds
  have a: "EventType ?p0 \<noteq> ''incident.custom_field_updated''
           \<and> EventType ?p0 \<noteq> ''public_incident.incident_updated_v2''"
    by (simp add: examplePayload_def)
  have b: "EventType ?p2 = ''public_incident.incident_updated_v2''"
    by (simp add: examplePayload_def)
  have c: "EventType ?p1 = ''incident.custom_field_updated''"
    by (simp add: examplePayload_def)
  have 0: "webhookHandler exampleSync ?w \<lparr>Method = ''POST'', Body = Payload ?p0\<rparr> []
           = (Response 200 (JsonStatus ''ignored''), [])"
    by (rule th [THEN conjunct1, THEN mp, OF a])
  \<comment> \<open>the v2 kind: the variant sub-object is processed\<close>
  have h2: "webhookHandler exampleSync ?w \<lparr>Method = ''POST'', Body = Payload ?p2\<rparr> []
           = (case processIncidentUpdate exampleSync ?w ?p2 [] of
               (Some err, t1) \<Rightarrow> (Response 500 (PlainText ''Processing failed''), t1)
             | (None, t1) \<Rightarrow> (Response 200 (JsonStatus ''success''), t1))"
    by (rule th [THEN conjunct2, THEN conjunct1, THEN mp, OF disjI2 [OF b]])
  have p2: "processIncidentUpdate exampleSync ?w ?p2 []
          = (if IssueName (ExternalIssueReference (PublicIncidentUpdatedV2 ?p2)) = []
             then (Some NoJiraIssueFound, [])
             else processEntries exampleSync ?w
                    (IssueName (ExternalIssueReference (PublicIncidentUpdatedV2 ?p2)))
                    (getFieldMappings exampleSync)
                    (CustomFieldEntries (PublicIncidentUpdatedV2 ?p2)) [])"
    by (rule th [THEN conjunct2, THEN conjunct2, THEN conjunct2, THEN conjunct2,
                 THEN conjunct1, THEN mp, OF b])
  have r2: "processIncidentUpdate exampleSync ?w ?p2 [] = (None, ?t2)"
    unfolding p2
    by (simp add: examplePayload_def exampleIncident_def field_impacted component_c4)
  have 2: "webhookHandler exampleSync ?w \<lparr>Method = ''POST'', Body = Payload ?p2\<rparr> []
           = (Response 200 (JsonStatus ''success''), ?t2)"
    unfolding h2 r2 by simp
  \<comment> \<open>the field-updated kind: the default sub-object is processed\<close>
  have h1: "webhookHandler exampleSync ?w \<lparr>Method = ''POST'', Body = Payload ?p1\<rparr> []
           = (case processIncidentUpdate exampleSync ?w ?p1 [] of
               (Some err, t1) \<Rightarrow> (Response 500 (PlainText ''Processing failed''), t1)
             | (None, t1) \<Rightarrow> (Response 200 (JsonStatus ''success''), t1))"
    by (rule th [THEN conjunct2, THEN conjunct1, THEN mp, OF disjI1 [OF c]])
  have p1: "processIncidentUpdate exampleSync ?w ?p1 []
          = (if IssueName (ExternalIssueReference (Incident ?p1)) = []
             then (Some NoJiraIssueFound, [])
             else processEntries exampleSync ?w
                    (IssueName (ExternalIssueReference (Incident ?p1)))
                    (getFieldMappings exampleSync) (CustomFieldEntries (Incident ?p1)) [])"
    by (rule th [THEN conjunct2, THEN conjunct2, THEN conjunct2, THEN conjunct2,
                 THEN conjunct2, THEN mp, OF c])
  have r1: "processIncidentUpdate exampleSync ?w ?p1 [] = (None, ?t1)"
    unfolding p1
    by (simp add: examplePayload_def exampleIncident_def field_impacted component_c3)
  have 1: "webhookHandler exampleSync ?w \<lparr>Method = ''POST'', Body = Payload ?p1\<rparr> []
           = (Response 200 (JsonStatus ''success''), ?t1)"
    unfolding h1 r1 by simp
  from 0 2 1 show ?thesis by (simp only:)
qed

end
